theory Spec2Isabelle
  imports Main "HOL-Library.Word"
begin

unbundle bit_operations_syntax

section \<open>The environment of nct-id.c: port permissions and port I/O\<close>

text \<open>
  \<^verbatim>\<open>nct-id.c\<close> talks to the Super I/O chip through three services of the operating
  system and the C library: \<^verbatim>\<open>ioperm(2)\<close>, the port instructions \<^verbatim>\<open>outb\<close> and
  \<^verbatim>\<open>inb\<close>, and \<^verbatim>\<open>printf\<close>. None of them is code of the program, so they are
  modelled as an environment. Every call is recorded, in the order in which it happens, as
  an event of a trace.

  An \<^verbatim>\<open>unsigned short\<close> is a 16-bit word and an \<^verbatim>\<open>unsigned char\<close> an 8-bit word.
  The first argument of \<^verbatim>\<open>ioperm\<close> is an \<^verbatim>\<open>unsigned long\<close>; the program passes
  \<^verbatim>\<open>idx\<close> and \<^verbatim>\<open>idx + 1\<close>, computed in \<^verbatim>\<open>int\<close> after integer promotion, so that
  argument is a natural number that does not wrap at 16 bits.
\<close>

type_synonym port = "16 word"
type_synonym byte = "8 word"

datatype event =
    Ioperm nat nat bool bool
  | Outb port byte
  | Inb port byte
  | Printf port "32 word" port

text \<open>
  \<open>Ioperm frm num turn_on granted\<close> is a call \<^verbatim>\<open>ioperm(frm, num, turn_on)\<close> together
  with its outcome; \<open>Outb p v\<close> is \<^verbatim>\<open>outb(v, p)\<close>; \<open>Inb p v\<close> is a call \<^verbatim>\<open>inb(p)\<close>
  that returned \<open>v\<close>; \<open>Printf IDX devid base\<close> is the one \<^verbatim>\<open>printf\<close> call of the
  program with its three arguments (the report line of one candidate).

  The environment decides two things: whether a permission request on a port is granted, and
  which byte a port read returns. The latter may depend on everything that has happened
  before (the chip answers according to the register number written last), hence on the
  trace.
\<close>

record env =
  ioperm_env :: "nat \<Rightarrow> bool"
  inb_env :: "event list \<Rightarrow> port \<Rightarrow> byte"

record world =
  trace :: "event list"
  perms :: "nat set"

definition init_world :: world where
  "init_world = \<lparr>trace = [], perms = {}\<rparr>"

text \<open>
  \<^verbatim>\<open>ioperm(frm, num, turn_on)\<close> returns 0 and sets (or clears) the permission of the
  ports \<open>frm, ..., frm + num - 1\<close> when the environment grants the request, and returns -1
  and changes nothing otherwise.
\<close>

definition ioperm :: "env \<Rightarrow> nat \<Rightarrow> nat \<Rightarrow> bool \<Rightarrow> world \<Rightarrow> int \<times> world" where
  "ioperm e frm num turn_on w =
     (if ioperm_env e frm
      then (0, w\<lparr>trace := trace w @ [Ioperm frm num turn_on True],
                 perms := (if turn_on then perms w \<union> {frm ..< frm + num}
                           else perms w - {frm ..< frm + num})\<rparr>)
      else (- 1, w\<lparr>trace := trace w @ [Ioperm frm num turn_on False]\<rparr>))"

definition printf :: "port \<Rightarrow> 32 word \<Rightarrow> port \<Rightarrow> world \<Rightarrow> world" where
  "printf IDX devid base w = w\<lparr>trace := trace w @ [Printf IDX devid base]\<rparr>"

section \<open>The program\<close>

subsection \<open>Port access primitives\<close>

definition outb_u8 :: "port \<Rightarrow> byte \<Rightarrow> world \<Rightarrow> world" where
  "outb_u8 p val w = w\<lparr>trace := trace w @ [Outb p val]\<rparr>"

definition inb_u8 :: "env \<Rightarrow> port \<Rightarrow> world \<Rightarrow> byte \<times> world" where
  "inb_u8 e p w =
     (let v = inb_env e (trace w) p in (v, w\<lparr>trace := trace w @ [Inb p v]\<rparr>))"

subsection \<open>The register session\<close>

text \<open>
  \<^verbatim>\<open>if (ioperm(idx, 1, 1) || ioperm(idx + 1, 1, 1)) return -1;\<close> evaluates the second
  request only when the first one returned 0.
\<close>

definition sio_enter :: "env \<Rightarrow> port \<Rightarrow> world \<Rightarrow> int \<times> world" where
  "sio_enter e idx w =
     (let (r1, w1) = ioperm e (unat idx) 1 True w in
      if r1 \<noteq> 0 then (- 1, w1)
      else
        let (r2, w2) = ioperm e (unat idx + 1) 1 True w1 in
        if r2 \<noteq> 0 then (- 1, w2)
        else (0, outb_u8 idx 0x87 (outb_u8 idx 0x87 w2)))"

definition sio_exit :: "port \<Rightarrow> world \<Rightarrow> world" where
  "sio_exit idx w = outb_u8 idx 0xAA w"

definition sio_write_cr :: "port \<Rightarrow> byte \<Rightarrow> byte \<Rightarrow> world \<Rightarrow> world" where
  "sio_write_cr idx reg val w = outb_u8 (idx + 1) val (outb_u8 idx reg w)"

definition sio_read_cr :: "env \<Rightarrow> port \<Rightarrow> byte \<Rightarrow> world \<Rightarrow> byte \<times> world" where
  "sio_read_cr e idx reg w = inb_u8 e (idx + 1) (outb_u8 idx reg w)"

subsection \<open>The probe: \<^verbatim>\<open>main\<close>\<close>

definition idx_ports :: "port list" where
  "idx_ports = [0x2E, 0x4E]"

text \<open>
  One iteration of the \<^verbatim>\<open>for\<close> loop of \<^verbatim>\<open>main\<close>, for the candidate \<open>IDX\<close>. The
  \<^verbatim>\<open>continue\<close> after a failed \<^verbatim>\<open>sio_enter\<close> ends the iteration at once.
  \<^verbatim>\<open>devid\<close> is an \<^verbatim>\<open>unsigned int\<close>; \<^verbatim>\<open>(ba_hi << 8) | ba_lo\<close> is computed in
  \<^verbatim>\<open>int\<close> and stored in an \<^verbatim>\<open>unsigned short\<close>.
\<close>

definition main_body :: "env \<Rightarrow> port \<Rightarrow> world \<Rightarrow> world" where
  "main_body e IDX w =
     (let (rc, w1) = sio_enter e IDX w in
      if rc \<noteq> 0 then w1
      else
        let (id_hi, w2) = sio_read_cr e IDX 0x20 w1;
            (id_lo, w3) = sio_read_cr e IDX 0x21 w2;
            devid = push_bit 8 (ucast id_hi :: 32 word) OR ucast id_lo;
            w4 = sio_write_cr IDX 0x07 0x0B w3;
            (ba_hi, w5) = sio_read_cr e IDX 0x60 w4;
            (ba_lo, w6) = sio_read_cr e IDX 0x61 w5;
            base = (ucast (push_bit 8 (ucast ba_hi :: 32 word) OR ucast ba_lo) :: port);
            w7 = printf IDX devid base w6
        in sio_exit IDX w7)"

text \<open>The loop \<^verbatim>\<open>for (int p = 0; p < 2; ++p)\<close> over the array \<^verbatim>\<open>idx_ports\<close>.\<close>

function main_loop :: "env \<Rightarrow> nat \<Rightarrow> world \<Rightarrow> world" where
  "main_loop e p w =
     (if p < 2 then main_loop e (p + 1) (main_body e (idx_ports ! p) w) else w)"
  by pat_completeness auto
termination
  by (relation "measure (\<lambda>(e, p, w). 2 - p)") auto

definition main :: "env \<Rightarrow> int \<times> world" where
  "main e = (0, main_loop e 0 init_world)"

section \<open>Observing a run\<close>

text \<open>
  The claims are statements about what a run does to the ports and what it reports. The
  functions below read these observations off a trace. \<open>since w w'\<close> is the list of
  events that were added to the trace of \<open>w\<close> to reach \<open>w'\<close>.
\<close>

definition since :: "world \<Rightarrow> world \<Rightarrow> event list" where
  "since w w' = drop (length (trace w)) (trace w')"

text \<open>
  The results emitted in a trace: one triple (port, identity, base address) for every report
  line, in the order of emission.
\<close>

fun found_of :: "event \<Rightarrow> (nat \<times> nat \<times> nat) list" where
  "found_of (Printf IDX devid base) = [(unat IDX, unat devid, unat base)]"
| "found_of _ = []"

definition found :: "event list \<Rightarrow> (nat \<times> nat \<times> nat) list" where
  "found t = concat (map found_of t)"

text \<open>Port reads and writes, as opposed to permission requests and report lines.\<close>

fun is_port_io :: "event \<Rightarrow> bool" where
  "is_port_io (Outb p v) = True"
| "is_port_io (Inb p v) = True"
| "is_port_io _ = False"

text \<open>The ports that are read or written in a trace.\<close>

fun io_port_of :: "event \<Rightarrow> port list" where
  "io_port_of (Outb p v) = [p]"
| "io_port_of (Inb p v) = [p]"
| "io_port_of _ = []"

definition io_ports :: "event list \<Rightarrow> port list" where
  "io_ports t = concat (map io_port_of t)"

text \<open>The bytes written to the port \<open>p\<close>, in order.\<close>

fun outb_to :: "port \<Rightarrow> event \<Rightarrow> byte list" where
  "outb_to p (Outb q v) = (if q = p then [v] else [])"
| "outb_to p _ = []"

definition outbs_to :: "port \<Rightarrow> event list \<Rightarrow> byte list" where
  "outbs_to p t = concat (map (outb_to p) t)"

text \<open>The bytes returned by port reads, in order.\<close>

fun inb_of :: "event \<Rightarrow> byte list" where
  "inb_of (Inb p v) = [v]"
| "inb_of _ = []"

definition inbs :: "event list \<Rightarrow> byte list" where
  "inbs t = concat (map inb_of t)"

text \<open>The ports on which permission was requested, in order.\<close>

fun ioperm_of :: "event \<Rightarrow> nat list" where
  "ioperm_of (Ioperm frm num turn_on ok) = [frm]"
| "ioperm_of _ = []"

definition ioperm_requests :: "event list \<Rightarrow> nat list" where
  "ioperm_requests t = concat (map ioperm_of t)"

text \<open>
  The environment grants a candidate when it grants both the index port and the port after
  it. Lemma \<open>sio_enter_rc\<close> below shows that this is exactly when \<open>sio_enter\<close> returns 0.
\<close>

definition granted :: "env \<Rightarrow> port \<Rightarrow> bool" where
  "granted e idx = (ioperm_env e (unat idx) \<and> ioperm_env e (unat idx + 1))"

text \<open>
  The events of one loop iteration whose \<open>sio_enter\<close> succeeded, as a function of the four
  bytes that the data port returned. Lemma \<open>main_body_since\<close> below derives this list
  from \<open>main_body\<close>.
\<close>

definition session_events :: "port \<Rightarrow> byte \<Rightarrow> byte \<Rightarrow> byte \<Rightarrow> byte \<Rightarrow> event list" where
  "session_events IDX id_hi id_lo ba_hi ba_lo =
     [Ioperm (unat IDX) 1 True True, Ioperm (unat IDX + 1) 1 True True,
      Outb IDX 0x87, Outb IDX 0x87,
      Outb IDX 0x20, Inb (IDX + 1) id_hi, Outb IDX 0x21, Inb (IDX + 1) id_lo,
      Outb IDX 0x07, Outb (IDX + 1) 0x0B,
      Outb IDX 0x60, Inb (IDX + 1) ba_hi, Outb IDX 0x61, Inb (IDX + 1) ba_lo,
      Printf IDX (push_bit 8 (ucast id_hi) OR ucast id_lo)
                 (ucast (push_bit 8 (ucast ba_hi :: 32 word) OR ucast ba_lo)),
      Outb IDX 0xAA]"

section \<open>The session state machine of the specification\<close>

text \<open>
  The specification describes a register session as a state machine: \<open>Locked\<close> (initial
  and final), \<open>Unlocked\<close> after a successful acquire, \<open>Locked\<close> again after release;
  register reads and writes are defined in \<open>Unlocked\<close> only. The checker below follows
  these words on a trace of port operations. It also keeps the set of ports for which
  permission has been granted so far, since acquiring a session includes being granted both
  ports.

  \<^item> In \<open>Locked\<close> the only port operation accepted is the first byte \<open>0x87\<close> of the
    unlock handshake, written to a permitted port \<open>p\<close>; the handshake is complete, and the
    session on \<open>p\<close> is \<open>Unlocked\<close>, after the second \<open>0x87\<close> to the same port
    (\<open>Entering p\<close> is the moment between the two writes).
  \<^item> In \<open>Unlocked q\<close> a write of \<open>0xAA\<close> to \<open>q\<close> is the lock write and ends the session;
    any other write to \<open>q\<close> selects a register, and a write to or a read from \<open>q + 1\<close>
    accesses the selected register. Every other port operation is rejected.
  \<^item> Permission requests and report lines are not port operations and change no session
    state.
\<close>

datatype spec_state = Locked | Entering port | Unlocked port

fun spec_session_step :: "nat set \<times> spec_state \<Rightarrow> event \<Rightarrow> (nat set \<times> spec_state) option" where
  "spec_session_step (G, s) (Ioperm frm num turn_on ok) =
     Some (if ok then (if turn_on then G \<union> {frm ..< frm + num} else G - {frm ..< frm + num})
           else G, s)"
| "spec_session_step (G, s) (Printf IDX devid base) = Some (G, s)"
| "spec_session_step (G, Locked) (Outb p v) =
     (if unat p \<in> G \<and> v = 0x87 then Some (G, Entering p) else None)"
| "spec_session_step (G, Entering q) (Outb p v) =
     (if unat p \<in> G \<and> p = q \<and> v = 0x87 then Some (G, Unlocked q) else None)"
| "spec_session_step (G, Unlocked q) (Outb p v) =
     (if unat p \<in> G \<and> p = q \<and> v = 0xAA then Some (G, Locked)
      else if unat p \<in> G \<and> (p = q \<or> p = q + 1) then Some (G, Unlocked q)
      else None)"
| "spec_session_step (G, Unlocked q) (Inb p v) =
     (if unat p \<in> G \<and> p = q + 1 then Some (G, Unlocked q) else None)"
| "spec_session_step (G, s) (Inb p v) = None"

fun spec_session_run :: "nat set \<times> spec_state \<Rightarrow> event list \<Rightarrow> (nat set \<times> spec_state) option" where
  "spec_session_run c [] = Some c"
| "spec_session_run c (ev # t) =
     (case spec_session_step c ev of None \<Rightarrow> None | Some c' \<Rightarrow> spec_session_run c' t)"

section \<open>Test environments\<close>

text \<open>
  Scenario A: access is granted on \<open>0x2E\<close> and \<open>0x2F\<close> only, and the chip answers a
  read of the data port according to the register number written last: \<open>0xD4\<close> and
  \<open>0x28\<close> for the identity pair \<open>0x20\<close>, \<open>0x21\<close>; \<open>0x02\<close> and \<open>0x90\<close> for the
  base-address pair \<open>0x60\<close>, \<open>0x61\<close>.
\<close>

fun chip_A_reg :: "event \<Rightarrow> byte" where
  "chip_A_reg (Outb q r) =
     (if r = 0x20 then 0xD4 else if r = 0x21 then 0x28
      else if r = 0x60 then 0x02 else if r = 0x61 then 0x90 else 0xFF)"
| "chip_A_reg _ = 0xFF"

definition scenario_A :: env where
  "scenario_A =
     \<lparr>ioperm_env = (\<lambda>frm. frm = 0x2E \<or> frm = 0x2F),
      inb_env = (\<lambda>t p. if t = [] then 0xFF else chip_A_reg (last t))\<rparr>"

text \<open>Scenario B: every permission request is refused.\<close>

definition scenario_B :: env where
  "scenario_B = \<lparr>ioperm_env = (\<lambda>frm. False), inb_env = (\<lambda>t p. 0xFF)\<rparr>"

text \<open>An environment that grants the index port \<open>0x2E\<close> and refuses the data port \<open>0x2F\<close>.\<close>

definition scenario_half :: env where
  "scenario_half = \<lparr>ioperm_env = (\<lambda>frm. frm = 0x2E), inb_env = (\<lambda>t p. 0xFF)\<rparr>"

section \<open>Basic facts\<close>

subsection \<open>The loop runs the body on \<open>0x2E\<close>, then on \<open>0x4E\<close>\<close>

declare main_loop.simps [simp del]

lemma main_loop_unfold: "main_loop e 0 w = main_body e 0x4E (main_body e 0x2E w)"
  by (simp add: main_loop.simps idx_ports_def)

subsection \<open>Entering a session\<close>

lemma sio_enter_rc: "fst (sio_enter e idx w) = (if granted e idx then 0 else - 1)"
  by (simp add: granted_def sio_enter_def ioperm_def outb_u8_def)

lemma sio_enter_zero: "fst (sio_enter e idx w) = 0 \<Longrightarrow> granted e idx"
  by (simp add: sio_enter_rc split: if_splits)

lemma sio_enter_nonzero: "fst (sio_enter e idx w) \<noteq> 0 \<Longrightarrow> \<not> granted e idx"
  by (simp add: sio_enter_rc split: if_splits)

lemma sio_enter_granted:
  assumes "granted e idx"
  shows "trace (snd (sio_enter e idx w)) =
      trace w @ [Ioperm (unat idx) 1 True True, Ioperm (unat idx + 1) 1 True True,
                 Outb idx 0x87, Outb idx 0x87]
    \<and> perms (snd (sio_enter e idx w)) = perms w \<union> {unat idx, unat idx + 1}"
  using assms by (auto simp add: granted_def sio_enter_def ioperm_def outb_u8_def)

lemma sio_enter_denied:
  assumes "\<not> granted e idx"
  shows "trace (snd (sio_enter e idx w)) =
      trace w @ (if ioperm_env e (unat idx)
                 then [Ioperm (unat idx) 1 True True, Ioperm (unat idx + 1) 1 True False]
                 else [Ioperm (unat idx) 1 True False])"
  using assms by (simp add: granted_def sio_enter_def ioperm_def)

subsection \<open>One loop iteration\<close>

lemma main_body_denied:
  assumes "\<not> granted e IDX"
  shows "main_body e IDX w = snd (sio_enter e IDX w)"
  using sio_enter_rc [of e IDX w] assms
  by (cases "sio_enter e IDX w") (simp add: main_body_def)

lemma main_body_granted:
  assumes "granted e IDX"
  shows "\<exists>id_hi id_lo ba_hi ba_lo.
    trace (main_body e IDX w) = trace w @ session_events IDX id_hi id_lo ba_hi ba_lo"
  using assms
  by (simp add: granted_def main_body_def sio_enter_def ioperm_def sio_read_cr_def
      sio_write_cr_def sio_exit_def inb_u8_def outb_u8_def printf_def Let_def session_events_def)

lemma main_body_since:
  assumes "granted e IDX"
  shows "\<exists>id_hi id_lo ba_hi ba_lo.
    since w (main_body e IDX w) = session_events IDX id_hi id_lo ba_hi ba_lo"
proof -
  from main_body_granted [OF assms, of w] obtain id_hi id_lo ba_hi ba_lo where
    "trace (main_body e IDX w) = trace w @ session_events IDX id_hi id_lo ba_hi ba_lo"
    by blast
  then have "since w (main_body e IDX w) = session_events IDX id_hi id_lo ba_hi ba_lo"
    by (simp add: since_def)
  then show ?thesis by blast
qed

lemma main_body_since_denied:
  assumes "\<not> granted e IDX"
  shows "since w (main_body e IDX w) =
     (if ioperm_env e (unat IDX)
      then [Ioperm (unat IDX) 1 True True, Ioperm (unat IDX + 1) 1 True False]
      else [Ioperm (unat IDX) 1 True False])"
  using sio_enter_denied [OF assms, of w] by (simp add: main_body_denied [OF assms] since_def)

lemma main_body_perms:
  "perms (main_body e IDX w) =
     (if ioperm_env e (unat IDX)
      then if ioperm_env e (unat IDX + 1) then perms w \<union> {unat IDX, unat IDX + 1}
           else perms w \<union> {unat IDX}
      else perms w)"
  by (auto simp add: main_body_def sio_enter_def ioperm_def sio_read_cr_def sio_write_cr_def
      sio_exit_def inb_u8_def outb_u8_def printf_def Let_def)

lemma main_body_extends: "trace (main_body e IDX w) = trace w @ since w (main_body e IDX w)"
proof (cases "granted e IDX")
  case True
  from main_body_granted [OF True, of w] obtain xs where
    "trace (main_body e IDX w) = trace w @ xs"
    by blast
  then show ?thesis by (simp add: since_def)
next
  case False
  then show ?thesis
    using sio_enter_denied [OF False, of w] by (simp add: main_body_denied since_def)
qed

subsection \<open>The whole run\<close>

lemma main_trace:
  "trace (snd (main e)) =
     since init_world (main_body e 0x2E init_world)
     @ since (main_body e 0x2E init_world) (main_body e 0x4E (main_body e 0x2E init_world))"
proof -
  have "trace (snd (main e)) = trace (main_body e 0x4E (main_body e 0x2E init_world))"
    by (simp add: main_def main_loop_unfold)
  also have "\<dots> = trace (main_body e 0x2E init_world)
       @ since (main_body e 0x2E init_world) (main_body e 0x4E (main_body e 0x2E init_world))"
    by (rule main_body_extends)
  also have "trace (main_body e 0x2E init_world) = since init_world (main_body e 0x2E init_world)"
    by (simp add: since_def init_world_def)
  finally show ?thesis .
qed

lemma main_io_ports_body:
  "set (io_ports (since w (main_body e IDX w))) = (if granted e IDX then {IDX, IDX + 1} else {})"
proof (cases "granted e IDX")
  case True
  from main_body_since [OF True, of w] show ?thesis
    using True by (auto simp add: io_ports_def session_events_def)
next
  case False
  then show ?thesis by (simp add: main_body_since_denied io_ports_def)
qed

lemma main_io_ports:
  "set (io_ports (trace (snd (main e)))) =
     (if granted e 0x2E then {0x2E, 0x2F} else {}) \<union> (if granted e 0x4E then {0x4E, 0x4F} else {})"
proof -
  have "io_ports (trace (snd (main e))) =
      io_ports (since init_world (main_body e 0x2E init_world))
      @ io_ports (since (main_body e 0x2E init_world)
                        (main_body e 0x4E (main_body e 0x2E init_world)))"
    by (simp add: main_trace io_ports_def)
  then show ?thesis by (simp add: main_io_ports_body)
qed

lemma main_found_body:
  "map fst (found (since w (main_body e IDX w))) = (if granted e IDX then [unat IDX] else [])"
proof (cases "granted e IDX")
  case True
  from main_body_since [OF True, of w] show ?thesis
    using True by (auto simp add: found_def session_events_def)
next
  case False
  then show ?thesis by (simp add: main_body_since_denied found_def)
qed

lemma main_found:
  "map fst (found (trace (snd (main e)))) = map unat (filter (granted e) idx_ports)"
proof -
  have "found (trace (snd (main e))) =
      found (since init_world (main_body e 0x2E init_world))
      @ found (since (main_body e 0x2E init_world)
                     (main_body e 0x4E (main_body e 0x2E init_world)))"
    by (simp add: main_trace found_def)
  then show ?thesis by (simp add: main_found_body idx_ports_def)
qed

lemma main_outbs_body:
  "outbs_to p (since w (main_body e IDX w)) =
     (if granted e IDX
      then (if p = IDX then [0x87, 0x87, 0x20, 0x21, 0x07, 0x60, 0x61, 0xAA]
            else if p = IDX + 1 then [0x0B] else [])
      else [])"
proof (cases "granted e IDX")
  case True
  from main_body_since [OF True, of w] show ?thesis
    using True by (auto simp add: outbs_to_def session_events_def)
next
  case False
  then show ?thesis by (simp add: main_body_since_denied outbs_to_def)
qed

lemma main_outbs_candidate:
  assumes "IDX \<in> set idx_ports"
  shows "outbs_to IDX (trace (snd (main e))) =
    (if granted e IDX then [0x87, 0x87, 0x20, 0x21, 0x07, 0x60, 0x61, 0xAA] else [])"
proof -
  have "outbs_to IDX (trace (snd (main e))) =
      outbs_to IDX (since init_world (main_body e 0x2E init_world))
      @ outbs_to IDX (since (main_body e 0x2E init_world)
                            (main_body e 0x4E (main_body e 0x2E init_world)))"
    by (simp add: main_trace outbs_to_def)
  then show ?thesis
    using assms by (auto simp add: main_outbs_body idx_ports_def)
qed

lemma main_requests_body:
  "ioperm_requests (since w (main_body e IDX w)) =
     (if ioperm_env e (unat IDX) then [unat IDX, unat IDX + 1] else [unat IDX])"
proof (cases "granted e IDX")
  case True
  from main_body_since [OF True, of w] show ?thesis
    using True by (auto simp add: ioperm_requests_def granted_def session_events_def)
next
  case False
  then show ?thesis by (simp add: main_body_since_denied ioperm_requests_def)
qed

lemma main_requests:
  "ioperm_requests (trace (snd (main e))) =
     (if ioperm_env e 0x2E then [0x2E, 0x2F] else [0x2E])
     @ (if ioperm_env e 0x4E then [0x4E, 0x4F] else [0x4E])"
proof -
  have "ioperm_requests (trace (snd (main e))) =
      ioperm_requests (since init_world (main_body e 0x2E init_world))
      @ ioperm_requests (since (main_body e 0x2E init_world)
                     (main_body e 0x4E (main_body e 0x2E init_world)))"
    by (simp add: main_trace ioperm_requests_def)
  then show ?thesis by (simp add: main_requests_body)
qed

lemma main_port_io_denied:
  assumes "\<not> granted e 0x2E" "\<not> granted e 0x4E"
  shows "filter is_port_io (trace (snd (main e))) = []"
  using assms by (simp add: main_trace main_body_since_denied)

subsection \<open>Assembling a 16-bit value from two bytes\<close>

lemma unat_hi_lo32:
  "unat (push_bit 8 (ucast (a::byte) :: 32 word) OR ucast (b::byte)) = 256 * unat a + unat b"
proof -
  have a: "unat a < 256" and b: "unat b < 256"
    using unsigned_less [of a] unsigned_less [of b] by simp_all
  have cat: "push_bit 8 (ucast a :: 32 word) OR ucast b = word_cat a b"
    by (simp add: word_cat_eq_push_bit_or)
  have ua: "unat (ucast a :: 32 word) = unat a" and ub: "unat (ucast b :: 32 word) = unat b"
    using a b by (simp_all add: unsigned_ucast_eq take_bit_nat_eq_self)
  have "unat (push_bit 8 (ucast a :: 32 word)) = 256 * unat a"
    using a by (simp add: unat_word_ariths push_bit_eq_mult ua)
  then show ?thesis
    using a b by (simp add: cat word_cat_eq unat_word_ariths ub)
qed

lemma unat_hi_lo16:
  "unat (ucast (push_bit 8 (ucast (a::byte) :: 32 word) OR ucast (b::byte)) :: port)
     = 256 * unat a + unat b"
proof -
  have a: "unat a < 256" and b: "unat b < 256"
    using unsigned_less [of a] unsigned_less [of b] by simp_all
  have "unat (ucast (push_bit 8 (ucast a :: 32 word) OR ucast b) :: port)
        = unat (push_bit 8 (ucast a :: 32 word) OR ucast b) mod 2 ^ 16"
    by (simp add: unsigned_ucast_eq take_bit_eq_mod)
  then show ?thesis using a b by (simp add: unat_hi_lo32)
qed

lemma unat_succ_port: "unat IDX < 0xFFFF \<Longrightarrow> unat (IDX + 1) = unat IDX + 1" for IDX :: port
  by (simp add: unat_word_ariths)

subsection \<open>Scenario A, evaluated\<close>

lemma inb_after:
  assumes "\<forall>t. inb_env e (t @ [ev]) p = v" and "t \<noteq> []" and "last t = ev"
  shows "inb_env e t p = v"
proof -
  from assms(2,3) have "t = butlast t @ [ev]" by (metis append_butlast_last_id)
  then show ?thesis using assms(1) by metis
qed

lemma scenario_A_enter: "fst (sio_enter scenario_A 0x2E w) = 0"
  by (simp add: sio_enter_rc granted_def scenario_A_def)

lemma scenario_A_body:
  "since init_world (main_body scenario_A 0x2E init_world) =
      [Ioperm 0x2E 1 True True, Ioperm 0x2F 1 True True,
       Outb 0x2E 0x87, Outb 0x2E 0x87,
       Outb 0x2E 0x20, Inb 0x2F 0xD4, Outb 0x2E 0x21, Inb 0x2F 0x28,
       Outb 0x2E 0x07, Outb 0x2F 0x0B,
       Outb 0x2E 0x60, Inb 0x2F 0x02, Outb 0x2E 0x61, Inb 0x2F 0x90,
       Printf 0x2E 0xD428 0x0290, Outb 0x2E 0xAA]"
  by (simp add: since_def init_world_def scenario_A_def main_body_def sio_enter_def ioperm_def
      sio_read_cr_def sio_write_cr_def sio_exit_def inb_u8_def outb_u8_def printf_def Let_def)

subsection \<open>The state machine of the specification\<close>

lemma spec_session_run_append:
  "spec_session_run c (xs @ ys) =
     (case spec_session_run c xs of None \<Rightarrow> None | Some c' \<Rightarrow> spec_session_run c' ys)"
  by (induction xs arbitrary: c) (auto split: option.splits)

lemma spec_session_run_body:
  assumes "unat IDX < 0xFFFF" and "perms w = G"
  shows "spec_session_run (G, Locked) (since w (main_body e IDX w))
           = Some (perms (main_body e IDX w), Locked)"
proof (cases "granted e IDX")
  case True
  from main_body_since [OF True, of w] obtain id_hi id_lo ba_hi ba_lo where
    s: "since w (main_body e IDX w) = session_events IDX id_hi id_lo ba_hi ba_lo"
    by blast
  from True have p: "perms (main_body e IDX w) = G \<union> {unat IDX, unat IDX + 1}"
    using assms(2) by (simp add: main_body_perms granted_def)
  show ?thesis
    using unat_succ_port [OF assms(1)]
    by (auto simp add: s p session_events_def)
next
  case False
  then show ?thesis
    using assms(2) by (auto simp add: main_body_since_denied main_body_perms granted_def)
qed

text \<open>The checker is not vacuous: it rejects register accesses outside a session.\<close>

lemma spec_session_rejects_locked_access:
  "spec_session_run ({0x2E, 0x2F}, Locked) [Outb 0x2E 0x20, Inb 0x2F v] = None"
  by simp

lemma spec_session_rejects_access_after_lock:
  "spec_session_run ({0x2E, 0x2F}, Locked)
     [Outb 0x2E 0x87, Outb 0x2E 0x87, Outb 0x2E 0xAA, Outb 0x2E 0x20, Inb 0x2F v] = None"
  by simp

lemma spec_session_rejects_unpermitted:
  "spec_session_run ({}, Locked) [Outb 0x2E 0x87] = None"
  by simp

section \<open>End-to-end scenario A\<close>

text \<open>
  Claim C1. The candidates are \<open>0x2E\<close> and \<open>0x4E\<close>. When the environment grants access
  on \<open>0x2E\<close> (index port \<open>0x2E\<close> and data port \<open>0x2F\<close>), refuses it on \<open>0x4E\<close>
  (refuses the index port \<open>0x4E\<close> or the data port \<open>0x4F\<close>), and
  the data port returns \<open>0xD4\<close>, \<open>0x28\<close> for the identity registers and \<open>0x02\<close>,
  \<open>0x90\<close> for the base-address registers, the program emits exactly one result, for port
  \<open>0x2E\<close> with identity \<open>0xD428\<close> and base address \<open>0x0290\<close>, and none for \<open>0x4E\<close>.
\<close>

theorem scenario_A_one_result:
  assumes grant: "ioperm_env e 0x2E" "ioperm_env e 0x2F"
    and deny: "\<not> (ioperm_env e 0x4E \<and> ioperm_env e 0x4F)"
    and id_hi: "\<forall>t. inb_env e (t @ [Outb 0x2E 0x20]) 0x2F = 0xD4"
    and id_lo: "\<forall>t. inb_env e (t @ [Outb 0x2E 0x21]) 0x2F = 0x28"
    and ba_hi: "\<forall>t. inb_env e (t @ [Outb 0x2E 0x60]) 0x2F = 0x02"
    and ba_lo: "\<forall>t. inb_env e (t @ [Outb 0x2E 0x61]) 0x2F = 0x90"
  shows "found (trace (snd (main e))) = [(0x2E, 0xD428, 0x0290)]"
  using grant deny
  by (auto simp add: main_def main_loop_unfold main_body_def sio_enter_def ioperm_def
      sio_read_cr_def sio_write_cr_def sio_exit_def inb_u8_def outb_u8_def printf_def
      init_world_def found_def Let_def
      inb_after [OF id_hi] inb_after [OF id_lo] inb_after [OF ba_hi] inb_after [OF ba_lo])

theorem scenario_A_one_result_witness:
  "ioperm_env scenario_A 0x2E \<and> ioperm_env scenario_A 0x2F
   \<and> \<not> (ioperm_env scenario_A 0x4E \<and> ioperm_env scenario_A 0x4F)
   \<and> found (trace (snd (main scenario_A))) = [(0x2E, 0xD428, 0x0290)]"
proof -
  have g: "ioperm_env scenario_A 0x2E" "ioperm_env scenario_A 0x2F"
    and d: "\<not> (ioperm_env scenario_A 0x4E \<and> ioperm_env scenario_A 0x4F)"
    by (simp_all add: scenario_A_def)
  have r: "\<forall>t. inb_env scenario_A (t @ [Outb 0x2E 0x20]) 0x2F = 0xD4"
    "\<forall>t. inb_env scenario_A (t @ [Outb 0x2E 0x21]) 0x2F = 0x28"
    "\<forall>t. inb_env scenario_A (t @ [Outb 0x2E 0x60]) 0x2F = 0x02"
    "\<forall>t. inb_env scenario_A (t @ [Outb 0x2E 0x61]) 0x2F = 0x90"
    by (simp_all add: scenario_A_def)
  show ?thesis
    using g d scenario_A_one_result [OF g d r] by simp
qed

section \<open>Byte order of the assembled values\<close>

text \<open>
  Claim C2. In every iteration whose \<open>sio_enter\<close> succeeded, exactly four bytes are read,
  and the reported identity and base address are assembled from them with the byte read
  first as the high byte and the byte read second as the low byte: the identity is
  \<open>256 * id_hi + id_lo\<close> for the first pair and the base address \<open>256 * ba_hi + ba_lo\<close>
  for the second pair. The witness instantiates this at the reads \<open>(0xD4, 0x28)\<close> and
  \<open>(0x02, 0x90)\<close>, which assemble to \<open>0xD428\<close> and \<open>0x0290\<close>.
\<close>

theorem first_read_is_high_byte:
  assumes "fst (sio_enter e IDX w) = 0"
  shows "\<exists>id_hi id_lo ba_hi ba_lo.
     inbs (since w (main_body e IDX w)) = [id_hi, id_lo, ba_hi, ba_lo]
     \<and> found (since w (main_body e IDX w)) =
         [(unat IDX, 256 * unat id_hi + unat id_lo, 256 * unat ba_hi + unat ba_lo)]"
proof -
  from assms have g: "granted e IDX" by (rule sio_enter_zero)
  from main_body_since [OF g, of w] obtain id_hi id_lo ba_hi ba_lo where
    s: "since w (main_body e IDX w) = session_events IDX id_hi id_lo ba_hi ba_lo"
    by blast
  have "inbs (since w (main_body e IDX w)) = [id_hi, id_lo, ba_hi, ba_lo]"
    by (simp add: s inbs_def session_events_def)
  moreover have "found (since w (main_body e IDX w)) =
         [(unat IDX, 256 * unat id_hi + unat id_lo, 256 * unat ba_hi + unat ba_lo)]"
    by (simp add: s found_def session_events_def unat_hi_lo32 unat_hi_lo16)
  ultimately show ?thesis by blast
qed

theorem first_read_is_high_byte_witness:
  "fst (sio_enter scenario_A 0x2E init_world) = 0
   \<and> inbs (since init_world (main_body scenario_A 0x2E init_world)) = [0xD4, 0x28, 0x02, 0x90]
   \<and> found (since init_world (main_body scenario_A 0x2E init_world)) = [(0x2E, 0xD428, 0x0290)]"
proof -
  have i: "inbs (since init_world (main_body scenario_A 0x2E init_world)) = [0xD4, 0x28, 0x02, 0x90]"
    by (simp add: scenario_A_body inbs_def)
  from first_read_is_high_byte [OF scenario_A_enter, of init_world] i
  have "found (since init_world (main_body scenario_A 0x2E init_world)) =
     [(unat (0x2E :: port), 256 * unat (0xD4 :: byte) + unat (0x28 :: byte),
       256 * unat (0x02 :: byte) + unat (0x90 :: byte))]"
    by auto
  then show ?thesis using i scenario_A_enter by simp
qed

section \<open>A refused candidate is skipped\<close>

text \<open>
  Claim C3. When \<open>sio_enter\<close> fails for a candidate, the iteration ends with the state that
  \<open>sio_enter\<close> left: the only events of the iteration are the refused permission request
  (or the granted request on the index port followed by the refused one on the data port).
  No byte is written to or read from any port, so there is no register read, no register
  write and no lock write, and nothing is reported. The loop goes on with the next
  candidate. Over the whole run of \<open>main\<close>, a refused candidate's index and data port are
  never touched and no result carries its port.
\<close>

theorem denied_candidate_is_skipped:
  assumes "fst (sio_enter e IDX w) \<noteq> 0"
  shows "main_body e IDX w = snd (sio_enter e IDX w)
    \<and> (since w (main_body e IDX w) = [Ioperm (unat IDX) 1 True False]
       \<or> since w (main_body e IDX w) =
           [Ioperm (unat IDX) 1 True True, Ioperm (unat IDX + 1) 1 True False])
    \<and> filter is_port_io (since w (main_body e IDX w)) = []
    \<and> found (since w (main_body e IDX w)) = []
    \<and> (p < 2 \<and> idx_ports ! p = IDX \<longrightarrow>
          main_loop e p w = main_loop e (p + 1) (snd (sio_enter e IDX w)))
    \<and> (IDX \<in> set idx_ports \<longrightarrow>
          IDX \<notin> set (io_ports (trace (snd (main e))))
        \<and> IDX + 1 \<notin> set (io_ports (trace (snd (main e))))
        \<and> unat IDX \<notin> set (map fst (found (trace (snd (main e))))))"
proof -
  from assms have d: "\<not> granted e IDX" by (rule sio_enter_nonzero)
  have b: "main_body e IDX w = snd (sio_enter e IDX w)"
    by (rule main_body_denied [OF d])
  have s: "since w (main_body e IDX w) =
     (if ioperm_env e (unat IDX)
      then [Ioperm (unat IDX) 1 True True, Ioperm (unat IDX + 1) 1 True False]
      else [Ioperm (unat IDX) 1 True False])"
    by (rule main_body_since_denied [OF d])
  have t: "since w (main_body e IDX w) = [Ioperm (unat IDX) 1 True False]
       \<or> since w (main_body e IDX w) =
           [Ioperm (unat IDX) 1 True True, Ioperm (unat IDX + 1) 1 True False]"
    by (simp add: s)
  have f: "filter is_port_io (since w (main_body e IDX w)) = []"
    by (simp add: s)
  have r: "found (since w (main_body e IDX w)) = []"
    by (simp add: s found_def)
  have l: "p < 2 \<and> idx_ports ! p = IDX \<longrightarrow>
          main_loop e p w = main_loop e (p + 1) (snd (sio_enter e IDX w))"
    using b by (auto simp add: main_loop.simps [of e p w])
  have m: "IDX \<in> set idx_ports \<longrightarrow>
          IDX \<notin> set (io_ports (trace (snd (main e))))
        \<and> IDX + 1 \<notin> set (io_ports (trace (snd (main e))))
        \<and> unat IDX \<notin> set (map fst (found (trace (snd (main e)))))"
    using d by (auto simp add: main_io_ports main_found idx_ports_def)
  show ?thesis
    using b t f r l m by blast
qed

theorem denied_candidate_is_skipped_witness:
  "fst (sio_enter scenario_A 0x4E init_world) \<noteq> 0
   \<and> (1::nat) < 2 \<and> idx_ports ! 1 = 0x4E \<and> 0x4E \<in> set idx_ports
   \<and> main_loop scenario_A 1 init_world =
       main_loop scenario_A (1 + 1) (snd (sio_enter scenario_A 0x4E init_world))
   \<and> since init_world (main_body scenario_A 0x4E init_world) = [Ioperm 0x4E 1 True False]
   \<and> 0x4E \<notin> set (io_ports (trace (snd (main scenario_A))))
   \<and> 0x4F \<notin> set (io_ports (trace (snd (main scenario_A))))
   \<and> 0x4E \<notin> set (map fst (found (trace (snd (main scenario_A)))))"
proof -
  have d: "fst (sio_enter scenario_A 0x4E init_world) \<noteq> 0"
    by (simp add: sio_enter_rc granted_def scenario_A_def)
  have n: "\<not> ioperm_env scenario_A (unat (0x4E :: port))"
    by (simp add: scenario_A_def)
  have c: "(0x4E :: port) \<in> set idx_ports" "idx_ports ! 1 = 0x4E"
    by (simp_all add: idx_ports_def)
  have s: "since init_world (main_body scenario_A 0x4E init_world) = [Ioperm 0x4E 1 True False]"
    using n by (simp add: since_def init_world_def main_body_def sio_enter_def ioperm_def)
  show ?thesis
    using denied_candidate_is_skipped [OF d, of 1] d c s by simp
qed

section \<open>The session is released exactly once\<close>

text \<open>
  Claim C4. In every iteration whose \<open>sio_enter\<close> succeeded, the bytes written to the
  index port are the two unlock bytes \<open>0x87\<close>, the register numbers, and last the lock byte
  \<open>0xAA\<close>: the lock write occurs exactly once among the events of the iteration, after the
  unlock writes to the same port, and it is the last event before the loop moves on to the
  next candidate. The same holds for the writes to a granted candidate's index port over the
  whole run of \<open>main\<close>.
\<close>

theorem release_exactly_once:
  assumes "fst (sio_enter e IDX w) = 0"
  shows "outbs_to IDX (since w (main_body e IDX w)) = [0x87, 0x87, 0x20, 0x21, 0x07, 0x60, 0x61, 0xAA]
    \<and> count_list (since w (main_body e IDX w)) (Outb IDX 0xAA) = 1
    \<and> last (trace (main_body e IDX w)) = Outb IDX 0xAA
    \<and> (p < 2 \<and> idx_ports ! p = IDX \<longrightarrow> main_loop e p w = main_loop e (p + 1) (main_body e IDX w))
    \<and> (IDX \<in> set idx_ports \<longrightarrow>
         outbs_to IDX (trace (snd (main e))) = [0x87, 0x87, 0x20, 0x21, 0x07, 0x60, 0x61, 0xAA])"
proof -
  from assms have g: "granted e IDX" by (rule sio_enter_zero)
  from main_body_since [OF g, of w] obtain id_hi id_lo ba_hi ba_lo where
    s: "since w (main_body e IDX w) = session_events IDX id_hi id_lo ba_hi ba_lo"
    by blast
  have o: "outbs_to IDX (since w (main_body e IDX w)) = [0x87, 0x87, 0x20, 0x21, 0x07, 0x60, 0x61, 0xAA]"
    using g by (simp add: main_outbs_body)
  have c: "count_list (since w (main_body e IDX w)) (Outb IDX 0xAA) = 1"
    by (simp add: s session_events_def)
  have "trace (main_body e IDX w) = trace w @ since w (main_body e IDX w)"
    by (rule main_body_extends)
  then have la: "last (trace (main_body e IDX w)) = Outb IDX 0xAA"
    by (simp add: s session_events_def)
  have l: "p < 2 \<and> idx_ports ! p = IDX \<longrightarrow> main_loop e p w = main_loop e (p + 1) (main_body e IDX w)"
    by (auto simp add: main_loop.simps [of e p w])
  have m: "IDX \<in> set idx_ports \<longrightarrow>
         outbs_to IDX (trace (snd (main e))) = [0x87, 0x87, 0x20, 0x21, 0x07, 0x60, 0x61, 0xAA]"
    using g by (simp add: main_outbs_candidate)
  show ?thesis using o c la l m by blast
qed

theorem release_exactly_once_witness:
  "fst (sio_enter scenario_A 0x2E init_world) = 0
   \<and> (0::nat) < 2 \<and> idx_ports ! 0 = 0x2E \<and> 0x2E \<in> set idx_ports
   \<and> count_list (since init_world (main_body scenario_A 0x2E init_world)) (Outb 0x2E 0xAA) = 1
   \<and> last (trace (main_body scenario_A 0x2E init_world)) = Outb 0x2E 0xAA
   \<and> outbs_to 0x2E (trace (snd (main scenario_A))) = [0x87, 0x87, 0x20, 0x21, 0x07, 0x60, 0x61, 0xAA]"
proof -
  have c: "(0x2E :: port) \<in> set idx_ports" "idx_ports ! 0 = 0x2E"
    by (simp_all add: idx_ports_def)
  show ?thesis
    using release_exactly_once [OF scenario_A_enter, of init_world 0] scenario_A_enter c by simp
qed

section \<open>The protocol steps of a session, in order\<close>

text \<open>
  Claim C5. In every iteration whose \<open>sio_enter\<close> succeeded, the events are, in this
  order: the two granted permission requests and the two unlock writes; the read of the
  identity pair (register \<open>0x20\<close>, then register \<open>0x21\<close>); the write of the selector
  \<open>0x0B\<close> to the device-select register \<open>0x07\<close>; the read of the base-address pair
  (register \<open>0x60\<close>, then register \<open>0x61\<close>); the report of the port with the identity and
  the base address assembled high byte first; the lock write.
\<close>

theorem session_protocol_order:
  assumes "fst (sio_enter e IDX w) = 0"
  shows "\<exists>id_hi id_lo ba_hi ba_lo devid base.
    since w (main_body e IDX w) =
      [Ioperm (unat IDX) 1 True True, Ioperm (unat IDX + 1) 1 True True,
       Outb IDX 0x87, Outb IDX 0x87,
       Outb IDX 0x20, Inb (IDX + 1) id_hi, Outb IDX 0x21, Inb (IDX + 1) id_lo,
       Outb IDX 0x07, Outb (IDX + 1) 0x0B,
       Outb IDX 0x60, Inb (IDX + 1) ba_hi, Outb IDX 0x61, Inb (IDX + 1) ba_lo,
       Printf IDX devid base, Outb IDX 0xAA]
    \<and> unat devid = 256 * unat id_hi + unat id_lo
    \<and> unat base = 256 * unat ba_hi + unat ba_lo"
proof -
  from assms have g: "granted e IDX" by (rule sio_enter_zero)
  from main_body_since [OF g, of w] obtain id_hi id_lo ba_hi ba_lo where
    s: "since w (main_body e IDX w) = session_events IDX id_hi id_lo ba_hi ba_lo"
    by blast
  show ?thesis
    using s [unfolded session_events_def]
      unat_hi_lo32 [of id_hi id_lo] unat_hi_lo16 [of ba_hi ba_lo] by blast
qed

theorem session_protocol_order_witness:
  "fst (sio_enter scenario_A 0x2E init_world) = 0
   \<and> (\<exists>id_hi id_lo ba_hi ba_lo devid base.
    since init_world (main_body scenario_A 0x2E init_world) =
      [Ioperm 0x2E 1 True True, Ioperm 0x2F 1 True True,
       Outb 0x2E 0x87, Outb 0x2E 0x87,
       Outb 0x2E 0x20, Inb 0x2F id_hi, Outb 0x2E 0x21, Inb 0x2F id_lo,
       Outb 0x2E 0x07, Outb 0x2F 0x0B,
       Outb 0x2E 0x60, Inb 0x2F ba_hi, Outb 0x2E 0x61, Inb 0x2F ba_lo,
       Printf 0x2E devid base, Outb 0x2E 0xAA]
    \<and> unat devid = 256 * unat id_hi + unat id_lo
    \<and> unat base = 256 * unat ba_hi + unat ba_lo)"
  using session_protocol_order [OF scenario_A_enter, of init_world] scenario_A_enter
  by simp

section \<open>The unlock and lock sequences\<close>

text \<open>
  Claim C6. A successful \<open>sio_enter\<close> adds to the trace the two granted permission
  requests and then exactly two port operations: the byte \<open>0x87\<close> written twice in a row
  to the index port. \<open>sio_exit\<close> adds exactly one event, the byte \<open>0xAA\<close> written to the
  index port, and changes nothing else.
\<close>

theorem unlock_and_lock_writes:
  "(fst (sio_enter e idx w) = 0 \<longrightarrow>
       since w (snd (sio_enter e idx w)) =
         [Ioperm (unat idx) 1 True True, Ioperm (unat idx + 1) 1 True True,
          Outb idx 0x87, Outb idx 0x87]
     \<and> filter is_port_io (since w (snd (sio_enter e idx w))) = [Outb idx 0x87, Outb idx 0x87])
   \<and> sio_exit idx w = w\<lparr>trace := trace w @ [Outb idx 0xAA]\<rparr>"
proof -
  have "fst (sio_enter e idx w) = 0 \<longrightarrow>
       since w (snd (sio_enter e idx w)) =
         [Ioperm (unat idx) 1 True True, Ioperm (unat idx + 1) 1 True True,
          Outb idx 0x87, Outb idx 0x87]
     \<and> filter is_port_io (since w (snd (sio_enter e idx w))) = [Outb idx 0x87, Outb idx 0x87]"
  proof
    assume "fst (sio_enter e idx w) = 0"
    then have g: "granted e idx" by (rule sio_enter_zero)
    have "since w (snd (sio_enter e idx w)) =
         [Ioperm (unat idx) 1 True True, Ioperm (unat idx + 1) 1 True True,
          Outb idx 0x87, Outb idx 0x87]"
      using sio_enter_granted [OF g, of w] by (simp add: since_def)
    then show "since w (snd (sio_enter e idx w)) =
         [Ioperm (unat idx) 1 True True, Ioperm (unat idx + 1) 1 True True,
          Outb idx 0x87, Outb idx 0x87]
     \<and> filter is_port_io (since w (snd (sio_enter e idx w))) = [Outb idx 0x87, Outb idx 0x87]"
      by simp
  qed
  moreover have "sio_exit idx w = w\<lparr>trace := trace w @ [Outb idx 0xAA]\<rparr>"
    by (simp add: sio_exit_def outb_u8_def)
  ultimately show ?thesis by blast
qed

theorem unlock_and_lock_writes_witness:
  "fst (sio_enter scenario_A 0x2E init_world) = 0
   \<and> filter is_port_io (since init_world (snd (sio_enter scenario_A 0x2E init_world)))
       = [Outb 0x2E 0x87, Outb 0x2E 0x87]
   \<and> sio_exit 0x2E init_world = init_world\<lparr>trace := trace init_world @ [Outb 0x2E 0xAA]\<rparr>"
  using unlock_and_lock_writes [of scenario_A "0x2E" init_world] scenario_A_enter [of init_world]
  by simp

section \<open>The data port is the index port plus one\<close>

text \<open>
  Claim C7. \<open>sio_read_cr\<close> writes the register number to the index port and then reads
  one byte from the port \<open>idx + 1\<close>, which it returns; \<open>sio_write_cr\<close> writes the register
  number to the index port and then the value to the port \<open>idx + 1\<close>. The port number is
  an \<^verbatim>\<open>unsigned short\<close>, so \<open>idx + 1\<close> is computed in 16 bits; below \<open>0xFFFF\<close>, which
  includes both candidates, it is the next port number. The port operations of an iteration
  touch no port other than \<open>idx\<close> and \<open>idx + 1\<close>, and those of a whole run of \<open>main\<close> no
  port other than \<open>0x2E\<close>, \<open>0x2F\<close>, \<open>0x4E\<close> and \<open>0x4F\<close>.
\<close>

theorem data_port_is_index_plus_one:
  "fst (sio_read_cr e idx reg w) = inb_env e (trace w @ [Outb idx reg]) (idx + 1)
   \<and> snd (sio_read_cr e idx reg w) =
       w\<lparr>trace := trace w @ [Outb idx reg, Inb (idx + 1) (fst (sio_read_cr e idx reg w))]\<rparr>
   \<and> sio_write_cr idx reg val w = w\<lparr>trace := trace w @ [Outb idx reg, Outb (idx + 1) val]\<rparr>
   \<and> (unat idx < 0xFFFF \<longrightarrow> unat (idx + 1) = unat idx + 1)
   \<and> set (io_ports (since w (main_body e idx w))) \<subseteq> {idx, idx + 1}
   \<and> set (io_ports (trace (snd (main e)))) \<subseteq> {0x2E, 0x2F, 0x4E, 0x4F}"
proof -
  have "fst (sio_read_cr e idx reg w) = inb_env e (trace w @ [Outb idx reg]) (idx + 1)"
    by (simp add: sio_read_cr_def inb_u8_def outb_u8_def Let_def)
  moreover have "snd (sio_read_cr e idx reg w) =
       w\<lparr>trace := trace w @ [Outb idx reg, Inb (idx + 1) (fst (sio_read_cr e idx reg w))]\<rparr>"
    by (simp add: sio_read_cr_def inb_u8_def outb_u8_def Let_def)
  moreover have "sio_write_cr idx reg val w = w\<lparr>trace := trace w @ [Outb idx reg, Outb (idx + 1) val]\<rparr>"
    by (simp add: sio_write_cr_def outb_u8_def)
  moreover have "unat idx < 0xFFFF \<longrightarrow> unat (idx + 1) = unat idx + 1"
    by (simp add: unat_succ_port)
  moreover have "set (io_ports (since w (main_body e idx w))) \<subseteq> {idx, idx + 1}"
    by (simp add: main_io_ports_body)
  moreover have "set (io_ports (trace (snd (main e)))) \<subseteq> {0x2E, 0x2F, 0x4E, 0x4F}"
    by (auto simp add: main_io_ports)
  ultimately show ?thesis by blast
qed

theorem data_port_is_index_plus_one_witness:
  "unat (0x2E :: port) < 0xFFFF \<and> unat ((0x2E :: port) + 1) = 0x2F
   \<and> fst (sio_read_cr scenario_A 0x2E 0x20 init_world) = 0xD4
   \<and> snd (sio_read_cr scenario_A 0x2E 0x20 init_world) =
        init_world\<lparr>trace := trace init_world @ [Outb 0x2E 0x20, Inb 0x2F 0xD4]\<rparr>
   \<and> sio_write_cr 0x2E 0x07 0x0B init_world =
        init_world\<lparr>trace := trace init_world @ [Outb 0x2E 0x07, Outb 0x2F 0x0B]\<rparr>"
  using
    data_port_is_index_plus_one
      [where e = scenario_A and idx = "0x2E" and reg = "0x20" and w = init_world and val = "0x0B"]
    data_port_is_index_plus_one
      [where e = scenario_A and idx = "0x2E" and reg = "0x07" and w = init_world and val = "0x0B"]
  by (simp add: scenario_A_def init_world_def)

section \<open>The probe never aborts\<close>

text \<open>
  Claim C8. For every environment, that is for every pattern of granted and refused
  permission requests and every behaviour of the chip, \<open>main\<close> returns 0. Permission is
  requested on both candidates \<open>0x2E\<close> and \<open>0x4E\<close>, in this order, whatever the answers
  are; \<open>sio_enter\<close> returns 0 or -1 and nothing else; the ports of the results are exactly
  the granted candidates, in order. When every candidate is refused there is no result and
  no port operation at all.
\<close>

theorem probe_never_aborts:
  "fst (main e) = 0
   \<and> filter (\<lambda>frm. frm \<in> set (map unat idx_ports)) (ioperm_requests (trace (snd (main e))))
       = map unat idx_ports
   \<and> fst (sio_enter e IDX w) = (if granted e IDX then 0 else - 1)
   \<and> map fst (found (trace (snd (main e)))) = map unat (filter (granted e) idx_ports)
   \<and> ((\<forall>IDX \<in> set idx_ports. \<not> granted e IDX) \<longrightarrow>
         found (trace (snd (main e))) = [] \<and> filter is_port_io (trace (snd (main e))) = [])"
proof -
  have 1: "fst (main e) = 0"
    by (simp add: main_def)
  have 2: "filter (\<lambda>frm. frm \<in> set (map unat idx_ports)) (ioperm_requests (trace (snd (main e))))
       = map unat idx_ports"
    by (simp add: main_requests idx_ports_def)
  have 3: "fst (sio_enter e IDX w) = (if granted e IDX then 0 else - 1)"
    by (rule sio_enter_rc)
  have 4: "map fst (found (trace (snd (main e)))) = map unat (filter (granted e) idx_ports)"
    by (rule main_found)
  have 5: "(\<forall>IDX \<in> set idx_ports. \<not> granted e IDX) \<longrightarrow>
         found (trace (snd (main e))) = [] \<and> filter is_port_io (trace (snd (main e))) = []"
  proof
    assume a: "\<forall>IDX \<in> set idx_ports. \<not> granted e IDX"
    then have d: "\<not> granted e 0x2E" "\<not> granted e 0x4E"
      by (simp_all add: idx_ports_def)
    have "filter (granted e) idx_ports = []"
      using a by simp
    with 4 have "found (trace (snd (main e))) = []"
      by simp
    then show "found (trace (snd (main e))) = [] \<and> filter is_port_io (trace (snd (main e))) = []"
      using main_port_io_denied [OF d] by simp
  qed
  show ?thesis using 1 2 3 4 5 by blast
qed

theorem probe_never_aborts_witness:
  "\<not> granted scenario_B 0x2E \<and> \<not> granted scenario_B 0x4E
   \<and> fst (main scenario_B) = 0
   \<and> found (trace (snd (main scenario_B))) = []
   \<and> filter is_port_io (trace (snd (main scenario_B))) = []
   \<and> ioperm_requests (trace (snd (main scenario_B))) = [0x2E, 0x4E]"
proof -
  have d: "\<forall>IDX \<in> set idx_ports. \<not> granted scenario_B IDX"
    by (simp add: granted_def scenario_B_def)
  have r: "ioperm_requests (trace (snd (main scenario_B))) = [0x2E, 0x4E]"
    by (simp add: main_requests scenario_B_def)
  have g: "\<not> granted scenario_B 0x2E" "\<not> granted scenario_B 0x4E"
    by (simp_all add: granted_def scenario_B_def)
  show ?thesis
    using probe_never_aborts [of scenario_B "0x2E" init_world] d g r by simp
qed

section \<open>Register accesses happen inside an open session only\<close>

text \<open>
  Claim C9. For every environment, the state machine of the specification accepts the
  whole trace of \<open>main\<close>, started in \<open>Locked\<close> with no port permitted, and ends in
  \<open>Locked\<close>: every register selection, read and write on a candidate's port pair happens
  after the two unlock writes to that candidate's index port and before the lock write that
  follows them, on ports for which permission was granted before, and no session is left
  open.
\<close>

theorem register_access_only_in_session:
  "spec_session_run ({}, Locked) (trace (snd (main e))) = Some (perms (snd (main e)), Locked)"
proof -
  have 1: "spec_session_run ({}, Locked) (since init_world (main_body e 0x2E init_world))
        = Some (perms (main_body e 0x2E init_world), Locked)"
    by (rule spec_session_run_body) (simp_all add: init_world_def)
  have 2: "spec_session_run (perms (main_body e 0x2E init_world), Locked)
          (since (main_body e 0x2E init_world) (main_body e 0x4E (main_body e 0x2E init_world)))
        = Some (perms (main_body e 0x4E (main_body e 0x2E init_world)), Locked)"
    by (rule spec_session_run_body) simp_all
  have 3: "perms (snd (main e)) = perms (main_body e 0x4E (main_body e 0x2E init_world))"
    by (simp add: main_def main_loop_unfold)
  show ?thesis
    by (simp only: main_trace spec_session_run_append 1 2 3 option.case)
qed

section \<open>Acquiring the two ports is not atomic\<close>

text \<open>
  Claim C10. \<open>sio_enter\<close> requests permission on the index port first and on the port
  after it second, as two separate requests. When the first is refused, the second is not
  made. When the first is granted and the second refused, \<open>sio_enter\<close> returns -1, and the
  permission on the index port stays granted: nothing revokes it, neither in \<open>sio_enter\<close>
  nor in the rest of the iteration nor in the rest of the run of \<open>main\<close>.
\<close>

theorem acquire_is_not_atomic:
  "(\<not> ioperm_env e (unat idx) \<longrightarrow>
      sio_enter e idx w = (- 1, w\<lparr>trace := trace w @ [Ioperm (unat idx) 1 True False]\<rparr>))
   \<and> (ioperm_env e (unat idx) \<and> \<not> ioperm_env e (unat idx + 1) \<longrightarrow>
      sio_enter e idx w =
        (- 1, w\<lparr>trace := trace w @ [Ioperm (unat idx) 1 True True,
                                     Ioperm (unat idx + 1) 1 True False],
                 perms := perms w \<union> {unat idx}\<rparr>)
      \<and> unat idx \<in> perms (main_body e idx w)
      \<and> (idx \<in> set idx_ports \<longrightarrow> unat idx \<in> perms (snd (main e))))"
proof -
  have 1: "\<not> ioperm_env e (unat idx) \<longrightarrow>
      sio_enter e idx w = (- 1, w\<lparr>trace := trace w @ [Ioperm (unat idx) 1 True False]\<rparr>)"
    by (simp add: sio_enter_def ioperm_def)
  have 2: "ioperm_env e (unat idx) \<and> \<not> ioperm_env e (unat idx + 1) \<longrightarrow>
      sio_enter e idx w =
        (- 1, w\<lparr>trace := trace w @ [Ioperm (unat idx) 1 True True,
                                     Ioperm (unat idx + 1) 1 True False],
                 perms := perms w \<union> {unat idx}\<rparr>)"
    by (simp add: sio_enter_def ioperm_def)
  have 3: "ioperm_env e (unat idx) \<longrightarrow> unat idx \<in> perms (main_body e idx w)"
    by (simp add: main_body_perms)
  have 4: "ioperm_env e (unat idx) \<longrightarrow> idx \<in> set idx_ports \<longrightarrow> unat idx \<in> perms (snd (main e))"
    by (auto simp add: main_def main_loop_unfold main_body_perms idx_ports_def)
  show ?thesis using 1 2 3 4 by blast
qed

theorem acquire_is_not_atomic_witness:
  "ioperm_env scenario_half (unat (0x2E :: port))
   \<and> \<not> ioperm_env scenario_half (unat (0x2E :: port) + 1)
   \<and> 0x2E \<in> set idx_ports
   \<and> sio_enter scenario_half 0x2E init_world =
        (- 1, init_world\<lparr>trace := [Ioperm 0x2E 1 True True, Ioperm 0x2F 1 True False],
                          perms := {0x2E}\<rparr>)
   \<and> 0x2E \<in> perms (snd (main scenario_half))"
  using acquire_is_not_atomic [of scenario_half "0x2E" init_world]
  by (simp add: scenario_half_def init_world_def idx_ports_def)

end
